theory Spec2Isabelle
  imports Main "HOL-Library.Word"
begin

section \<open>Key-pair derivation and partial-key reconstruction of VanitySearch (main.cpp)\<close>

text \<open>
  The development embeds four functions of \<^verbatim>\<open>main.cpp\<close>: \<^verbatim>\<open>parseFile\<close>,
  \<^verbatim>\<open>generateKeyPair\<close>, \<^verbatim>\<open>outputAdd\<close> and \<^verbatim>\<open>reconstructAdd\<close> (with its macro
  \<^verbatim>\<open>CHECK_ADDR\<close>). They print, open files, call \<^verbatim>\<open>exit\<close> and call into the curve
  engine (\<^verbatim>\<open>Secp256K1\<close>, \<^verbatim>\<open>Int\<close>), the hash primitives and \<^verbatim>\<open>Timer\<close>, none of which
  is part of \<^verbatim>\<open>main.cpp\<close>. Every function of the model therefore takes the record of
  those collaborators (an \<open>engine\<close>) and the trace of observable events so far, and
  returns the extended trace together with how it ended.
\<close>

subsection \<open>Enumerations\<close>

text \<open>
  Modelled from the spec: the macros \<^verbatim>\<open>P2PKH\<close>, \<^verbatim>\<open>P2SH\<close>, \<^verbatim>\<open>BECH32\<close> and
  \<^verbatim>\<open>SEARCH_COMPRESSED\<close>, \<^verbatim>\<open>SEARCH_UNCOMPRESSED\<close>, \<^verbatim>\<open>SEARCH_BOTH\<close> come from headers
  that are not part of \<^verbatim>\<open>main.cpp\<close>. The spec lists AddressType as the enumeration
  {P2PKH, P2SH-P2WPKH, BECH32}; \<^verbatim>\<open>main.cpp\<close> uses each group as the labels of one
  \<^verbatim>\<open>switch\<close> or compares against them, so they are pairwise distinct.
\<close>

datatype addr_type = P2PKH | P2SH | BECH32

datatype search_mode = SEARCH_COMPRESSED | SEARCH_UNCOMPRESSED | SEARCH_BOTH

subsection \<open>Observable events\<close>

text \<open>A \<^verbatim>\<open>FILE *\<close>: \<^verbatim>\<open>stdout\<close>, or the stream \<^verbatim>\<open>fopen\<close> returned for a path.\<close>

datatype stream = Stdout | FileStream string

text \<open>
  The \<^verbatim>\<open>printf\<close> calls of the four functions, one constructor per format string, with
  the values of its \<^verbatim>\<open>%d\<close> and \<^verbatim>\<open>%s\<close> arguments (colour codes left out):
  \<^item> \<open>CannotOpenInput f\<close>: "Error: Cannot open f ..." (\<^verbatim>\<open>parseFile\<close>);
  \<^item> \<open>LoadingProgress n\<close>: "[Loading input file ...%]" printed when \<open>n\<close> lines are loaded;
  \<^item> \<open>LoadingDone\<close>: "[Loading input file 100.0%]";
  \<^item> \<open>SeedTooShort\<close>: "Error: Use a seed of at least 8 characters to generate a key pair";
  \<^item> \<open>SeedExample\<close>: "Ex: VanitySearch -s "A Strong Password" -kp";
  \<^item> \<open>UseCompressedOrUncompressed\<close>: "Error: Use compressed or uncompressed to generate a key pair";
  \<^item> \<open>PrivLine s\<close>: "Priv : s"; \<open>PubLine s\<close>: "Pub  : s";
  \<^item> \<open>CannotOpenForWriting f\<close>: "Cannot open f for writing" (\<^verbatim>\<open>outputAdd\<close>);
  \<^item> \<open>InvalidLine i\<close>: "Invalid partialkey info file at line i";
  \<^item> \<open>AddressFormatNotSupported a\<close>: "a Address format not supported";
  \<^item> \<open>PubAddressExpected i\<close>: "Invalid partialkey info file at line i ("PubAddress: " expected)";
  \<^item> \<open>PartialPrivExpected i\<close>: "Invalid partialkey info file at line i ("PartialPriv: " expected)";
  \<^item> \<open>WrongCompressionMode i\<close>: "Warning, Invalid partialkey at line i (Wrong compression mode, ignoring key)";
  \<^item> \<open>UnableToReconstruct i a p\<close>: "Unable to reconstruct final key from partialkey line i, Addr: a, PartKey: p".
\<close>

datatype diag =
    CannotOpenInput string
  | LoadingProgress nat
  | LoadingDone
  | SeedTooShort
  | SeedExample
  | UseCompressedOrUncompressed
  | PrivLine string
  | PubLine string
  | CannotOpenForWriting string
  | InvalidLine nat
  | AddressFormatNotSupported string
  | PubAddressExpected nat
  | PartialPrivExpected nat
  | WrongCompressionMode nat
  | UnableToReconstruct nat string string

text \<open>
  Calls into the collaborators that the program's contract speaks about: the random
  source, the two hash primitives, the decoding of a private key text and the generator
  scalar multiplication, each with its arguments and, last, the value it returned.
  \<open>'p\<close> is the type \<^verbatim>\<open>Point\<close>.
\<close>

datatype 'p call =
    Call_getSeed nat string
  | Call_pbkdf2_hmac_sha512 nat string string nat "8 word list"
  | Call_sha256 "8 word list" nat "8 word list"
  | Call_DecodePrivateKey string "int \<times> bool"
  | Call_ComputePublicKey int 'p

text \<open>
  \<open>Fopen path mode ok\<close> is a call of \<^verbatim>\<open>fopen\<close> and whether it returned a stream;
  \<open>Fprintf f text\<close> is the text one \<^verbatim>\<open>fprintf\<close> call writes to \<open>f\<close>.
\<close>

datatype 'p event =
    Printf diag
  | Fopen string string bool
  | Fprintf stream string
  | Fclose stream
  | Call "'p call"

type_synonym 'p trace = "'p event list"

text \<open>
  How a function ends: it returns, it calls \<^verbatim>\<open>exit\<close> with a status, or it indexes the
  vector of lines at a position that is not in it (undefined behaviour in C++).
\<close>

datatype outcome = Returned | Exited int | OutOfBounds nat

subsection \<open>The collaborators\<close>

text \<open>
  The members of \<^verbatim>\<open>Secp256K1\<close>, \<^verbatim>\<open>Int::GetBase16\<close>, the hash functions, \<^verbatim>\<open>Timer::getSeed\<close>
  and the file system are parameters.
  \<open>DecodePrivateKey\<close> returns the scalar (negative when the text is not decodable) and
  the value its \<^verbatim>\<open>bool *compressed\<close> argument holds afterwards. \<open>fopen_append_ok\<close> says
  whether \<^verbatim>\<open>fopen(path, "a")\<close> succeeds; \<open>file_content\<close> is the content of a readable
  file and \<open>None\<close> when the file cannot be opened.
\<close>

record 'p engine =
  ComputePublicKey :: "int \<Rightarrow> 'p"
  GetAddress :: "addr_type \<Rightarrow> bool \<Rightarrow> 'p \<Rightarrow> string"
  GetPrivAddress :: "bool \<Rightarrow> int \<Rightarrow> string"
  GetPublicKeyHex :: "bool \<Rightarrow> 'p \<Rightarrow> string"
  DecodePrivateKey :: "string \<Rightarrow> int \<times> bool"
  GetBase16 :: "int \<Rightarrow> string"
  pbkdf2_hmac_sha512 :: "nat \<Rightarrow> string \<Rightarrow> string \<Rightarrow> nat \<Rightarrow> 8 word list"
  sha256 :: "8 word list \<Rightarrow> nat \<Rightarrow> 8 word list"
  getSeed :: "nat \<Rightarrow> string"
  fopen_append_ok :: "string \<Rightarrow> bool"
  file_content :: "string \<Rightarrow> string option"

subsection \<open>Strings\<close>

text \<open>
  \<^verbatim>\<open>s.c_str()\<close> read by \<^verbatim>\<open>%s\<close>, \<^verbatim>\<open>fopen\<close> or a \<^verbatim>\<open>char *\<close> parameter: the characters before
  the first NUL.
\<close>

definition c_str :: "string \<Rightarrow> string" where
  "c_str s = takeWhile (\<lambda>c. c \<noteq> CHR 0x00) s"

text \<open>\<^verbatim>\<open>isspace\<close> in the C locale.\<close>

definition isspace :: "char \<Rightarrow> bool" where
  "isspace c \<longleftrightarrow> c \<in> {CHR 0x20, CHR 0x09, CHR 0x0A, CHR 0x0B, CHR 0x0C, CHR 0x0D}"

text \<open>The loop that pops trailing white space off a line.\<close>

definition rstrip :: "string \<Rightarrow> string" where
  "rstrip line = rev (dropWhile isspace (rev line))"

text \<open>
  The lines successive \<^verbatim>\<open>getline\<close> calls deliver: the text between newlines; a last
  line without a newline is delivered when it is not empty.
\<close>

fun getlines :: "string \<Rightarrow> string \<Rightarrow> string list" where
  "getlines cur [] = (if cur = [] then [] else [cur])"
| "getlines cur (c # cs) =
     (if c = CHR 0x0A then cur # getlines [] cs else getlines (cur @ [c]) cs)"

subsection \<open>parseFile\<close>

text \<open>One iteration of the \<^verbatim>\<open>while (getline(inFile, line))\<close> loop.\<close>

definition parse_step ::
  "bool \<Rightarrow> string \<Rightarrow> string list \<times> nat \<times> 'p trace \<Rightarrow> string list \<times> nat \<times> 'p trace" where
  "parse_step loaddingProgress line0 s =
     (let (lines, nbLine, w) = s;
          line = rstrip line0
      in if length line > 0 then
           (let lines = lines @ [line];
                nbLine = nbLine + 1
            in (lines, nbLine,
                if loaddingProgress \<and> nbLine mod 50000 = 0
                then w @ [Printf (LoadingProgress nbLine)] else w))
         else (lines, nbLine, w))"

definition parseFile ::
  "'p engine \<Rightarrow> string \<Rightarrow> string list \<Rightarrow> 'p trace \<Rightarrow> (int + string list) \<times> 'p trace" where
  "parseFile E fileName lines w =
     (case file_content E (c_str fileName) of
        None \<Rightarrow>
          (Inl (- 1),
           w @ [Fopen (c_str fileName) ''rb'' False, Printf (CannotOpenInput (c_str fileName))])
      | Some content \<Rightarrow>
          (let sz = length content;
               loaddingProgress = (sz > 100000);
               w = w @ [Fopen (c_str fileName) ''rb'' True, Fclose (FileStream (c_str fileName))];
               (lines, nbLine, w) =
                  fold (parse_step loaddingProgress) (getlines [] content) (lines, 0, w);
               w = (if loaddingProgress then w @ [Printf LoadingDone] else w)
           in (Inr lines, w)))"

subsection \<open>generateKeyPair\<close>

text \<open>
  \<^verbatim>\<open>sha256\<close> writes its 32-byte digest over the memory of \<^verbatim>\<open>privKey.bits64\<close>, which
  \<^verbatim>\<open>SetInt32(0)\<close> has cleared: on a little-endian host the scalar is the digest read as
  a little-endian number. Nothing reduces it.
\<close>

definition Int_of_bits64 :: "8 word list \<Rightarrow> int" where
  "Int_of_bits64 bs = foldr (\<lambda>b acc. uint b + 256 * acc) (take 32 bs) 0"

definition generateKeyPair ::
  "'p engine \<Rightarrow> string \<Rightarrow> search_mode \<Rightarrow> bool \<Rightarrow> 'p trace \<Rightarrow> outcome \<times> 'p trace" where
  "generateKeyPair E seed0 searchMode paranoiacSeed w0 =
     (if length seed0 < 8 then
        (Exited (- 1), w0 @ [Printf SeedTooShort, Printf SeedExample])
      else
        (let (seed, w) =
               (if paranoiacSeed
                then (seed0 @ getSeed E 32, w0 @ [Call (Call_getSeed 32 (getSeed E 32))])
                else (seed0, w0))
         in if searchMode = SEARCH_BOTH then
              (Exited (- 1), w @ [Printf UseCompressedOrUncompressed])
            else
              (let compressed = (searchMode = SEARCH_COMPRESSED);
                   salt = ''VanitySearch'';
                   hseed = pbkdf2_hmac_sha512 E 64 seed salt 2048;
                   w = w @ [Call (Call_pbkdf2_hmac_sha512 64 seed salt 2048 hseed)];
                   digest = sha256 E hseed 64;
                   w = w @ [Call (Call_sha256 hseed 64 digest)];
                   privKey = Int_of_bits64 digest;
                   p = ComputePublicKey E privKey;
                   w = w @ [Call (Call_ComputePublicKey privKey p)];
                   w = w @ [Printf (PrivLine (c_str (GetPrivAddress E compressed privKey)))];
                   w = w @ [Printf (PubLine (c_str (GetPublicKeyHex E compressed p)))]
               in (Returned, w))))"

subsection \<open>outputAdd\<close>

definition outputAdd ::
  "'p engine \<Rightarrow> string \<Rightarrow> addr_type \<Rightarrow> string \<Rightarrow> string \<Rightarrow> string \<Rightarrow> 'p trace \<Rightarrow> 'p trace" where
  "outputAdd E outputFile addrType addr pAddr pAddrHex w0 =
     (let (f, needToClose, w) =
            (if length outputFile > 0 then
               (if fopen_append_ok E (c_str outputFile) then
                  (FileStream (c_str outputFile), True,
                   w0 @ [Fopen (c_str outputFile) ''a'' True])
                else
                  (Stdout, False,
                   w0 @ [Fopen (c_str outputFile) ''a'' False,
                         Printf (CannotOpenForWriting (c_str outputFile))]))
             else (Stdout, False, w0));
          w = w @ [Fprintf f (''\<newline>Pub Addr: '' @ c_str addr @ ''\<newline>'')];
          w = (case addrType of
                 P2PKH \<Rightarrow> w @ [Fprintf f (''Priv (WIF): p2pkh:'' @ c_str pAddr @ ''\<newline>'')]
               | P2SH \<Rightarrow> w @ [Fprintf f (''Priv (WIF): p2wpkh-p2sh:'' @ c_str pAddr @ ''\<newline>'')]
               | BECH32 \<Rightarrow> w @ [Fprintf f (''Priv (WIF): p2wpkh:'' @ c_str pAddr @ ''\<newline>'')]);
          w = w @ [Fprintf f (''Priv (HEX): 0x'' @ c_str pAddrHex @ ''\<newline>'')]
      in if needToClose then w @ [Fclose f] else w)"

subsection \<open>Scalars modulo the group order\<close>

text \<open>
  Modelled from the spec: the group order \<^verbatim>\<open>secp->order\<close> and the members
  \<^verbatim>\<open>Int::ModAddK1order\<close> and \<^verbatim>\<open>Int::ModMulK1order\<close> are not part of \<^verbatim>\<open>main.cpp\<close>. The
  spec asks for the published order \<open>n\<close> of secp256k1 and for \<open>modAdd(a,b)\<close> and
  \<open>modMul(a,b)\<close> reducing modulo \<open>n\<close>. \<^verbatim>\<open>Int::Neg\<close> and \<^verbatim>\<open>Int::Add\<close> are negation and
  addition of integers.
\<close>

definition secp_order :: int where
  "secp_order = 0xFFFFFFFFFFFFFFFFFFFFFFFFFFFFFFFEBAAEDCE6AF48A03BBFD25E8CD0364141"

definition ModAddK1order :: "int \<Rightarrow> int \<Rightarrow> int" where
  "ModAddK1order a b = (a + b) mod secp_order"

definition ModMulK1order :: "int \<Rightarrow> int \<Rightarrow> int" where
  "ModMulK1order e a = (e * a) mod secp_order"

text \<open>The two constants \<^verbatim>\<open>reconstructAdd\<close> sets with \<^verbatim>\<open>SetBase16\<close>.\<close>

definition lambda :: int where
  "lambda = 0x5363ad4cc05c30e0a5261c028812645a122e22ea20816678df02967c1b23bd72"

definition lambda2 :: int where
  "lambda2 = 0xac9c52b33fa3cf1f5ad9e3fd77ed9ba4a880b9fc8ec739c2e0cfc810b51283ce"

subsection \<open>reconstructAdd\<close>

text \<open>
  The macro \<^verbatim>\<open>CHECK_ADDR\<close>, on the variables it reads and writes: \<open>found\<close> and the
  trace.
\<close>

definition CHECK_ADDR ::
  "'p engine \<Rightarrow> string \<Rightarrow> addr_type \<Rightarrow> bool \<Rightarrow> string \<Rightarrow> int \<Rightarrow> int \<Rightarrow> bool \<times> 'p trace
     \<Rightarrow> bool \<times> 'p trace" where
  "CHECK_ADDR E outputFile addrType compressed addr partialPrivKey e s =
     (let (found, w) = s;
          fullPriv = ModAddK1order e partialPrivKey;
          p = ComputePublicKey E fullPriv;
          w = w @ [Call (Call_ComputePublicKey fullPriv p)];
          cAddr = GetAddress E addrType compressed p
      in if cAddr = addr then
           (let pAddr = GetPrivAddress E compressed fullPriv;
                pAddrHex = GetBase16 E fullPriv
            in (True, outputAdd E outputFile addrType addr pAddr pAddrHex w))
         else (found, w))"

text \<open>The block that reconstructs the address of one record (the last \<^verbatim>\<open>else\<close>).\<close>

definition reconstruct_record ::
  "'p engine \<Rightarrow> string \<Rightarrow> addr_type \<Rightarrow> bool \<Rightarrow> string \<Rightarrow> string \<Rightarrow> int \<Rightarrow> int \<Rightarrow> nat
     \<Rightarrow> 'p trace \<Rightarrow> 'p trace" where
  "reconstruct_record E outputFile addrType compressed addr partialPrivAddr privKey
       partialPrivKey i w0 =
     (let s = (False, w0);
          e = privKey;
          s = CHECK_ADDR E outputFile addrType compressed addr partialPrivKey e s;
          e = privKey;
          e = ModMulK1order e lambda;
          s = CHECK_ADDR E outputFile addrType compressed addr partialPrivKey e s;
          e = privKey;
          e = ModMulK1order e lambda2;
          s = CHECK_ADDR E outputFile addrType compressed addr partialPrivKey e s;
          e = privKey;
          e = - e;
          e = e + secp_order;
          s = CHECK_ADDR E outputFile addrType compressed addr partialPrivKey e s;
          e = privKey;
          e = ModMulK1order e lambda;
          e = - e;
          e = e + secp_order;
          s = CHECK_ADDR E outputFile addrType compressed addr partialPrivKey e s;
          e = privKey;
          e = ModMulK1order e lambda2;
          e = - e;
          e = e + secp_order;
          s = CHECK_ADDR E outputFile addrType compressed addr partialPrivKey e s;
          (found, w) = s
      in if \<not> found then
           w @ [Printf (UnableToReconstruct i (c_str addr) (c_str partialPrivAddr))]
         else w)"

text \<open>
  \<^verbatim>\<open>addr.data()[0]\<close> (the terminating NUL when \<open>addr\<close> is empty) and the \<^verbatim>\<open>switch\<close>
  on it; \<open>None\<close> is the \<^verbatim>\<open>default\<close> label.
\<close>

definition first_char :: "string \<Rightarrow> char" where
  "first_char addr = (case addr of [] \<Rightarrow> CHR 0x00 | c # _ \<Rightarrow> c)"

definition addrType_of :: "char \<Rightarrow> addr_type option" where
  "addrType_of c =
     (if c = CHR ''1'' then Some P2PKH
      else if c = CHR ''3'' then Some P2SH
      else if c = CHR ''b'' \<or> c = CHR ''B'' then Some BECH32
      else None)"

text \<open>
  One iteration of the \<^verbatim>\<open>for\<close> loop: \<open>Continue\<close> when the body ends or executes
  \<^verbatim>\<open>continue\<close>, \<open>Break\<close> when it calls \<^verbatim>\<open>exit\<close> or reads \<^verbatim>\<open>lines[i+1]\<close> past the end.
\<close>

datatype 'p step = Continue "'p trace" | Break outcome "'p trace"

definition loop_body ::
  "'p engine \<Rightarrow> string \<Rightarrow> int \<Rightarrow> bool \<Rightarrow> string list \<Rightarrow> nat \<Rightarrow> 'p trace \<Rightarrow> 'p step" where
  "loop_body E outputFile privKey compressed lines i w =
     (if take 12 (lines ! i) = ''PubAddress: '' then
        (let addr = drop 12 (lines ! i) in
         case addrType_of (first_char addr) of
           None \<Rightarrow>
             Continue (w @ [Printf (InvalidLine i),
                            Printf (AddressFormatNotSupported (c_str addr))])
         | Some addrType \<Rightarrow>
             (if \<not> i + 1 < length lines then Break (OutOfBounds (i + 1)) w
              else if take 13 (lines ! (i + 1)) = ''PartialPriv: '' then
                (let partialPrivAddr = drop 13 (lines ! (i + 1));
                     (partialPrivKey, partialMode) = DecodePrivateKey E (c_str partialPrivAddr);
                     w = w @ [Call (Call_DecodePrivateKey (c_str partialPrivAddr)
                                      (partialPrivKey, partialMode))]
                 in if privKey < 0 then Break (Exited (- 1)) (w @ [Printf (InvalidLine i)])
                    else if partialMode \<noteq> compressed then
                      Continue (w @ [Printf (WrongCompressionMode i)])
                    else
                      Continue (reconstruct_record E outputFile addrType compressed addr
                                  partialPrivAddr privKey partialPrivKey i w))
              else Break (Exited (- 1)) (w @ [Printf (PartialPrivExpected i)])))
      else Break (Exited (- 1)) (w @ [Printf (PubAddressExpected i)]))"

text \<open>\<^verbatim>\<open>for (int i = 0; i < (int)lines.size(); i += 2)\<close>, entered at \<open>i\<close>.\<close>

function reconstruct_loop ::
  "'p engine \<Rightarrow> string \<Rightarrow> int \<Rightarrow> bool \<Rightarrow> string list \<Rightarrow> nat \<Rightarrow> 'p trace \<Rightarrow> outcome \<times> 'p trace" where
  "reconstruct_loop E outputFile privKey compressed lines i w =
     (if i < length lines then
        (case loop_body E outputFile privKey compressed lines i w of
           Continue w' \<Rightarrow> reconstruct_loop E outputFile privKey compressed lines (i + 2) w'
         | Break oc w' \<Rightarrow> (oc, w'))
      else (Returned, w))"
  by pat_completeness auto
termination
  by (relation "measure (\<lambda>(E, outputFile, privKey, compressed, lines, i, w). length lines - i)")
     auto

definition reconstructAdd ::
  "'p engine \<Rightarrow> string \<Rightarrow> string \<Rightarrow> string \<Rightarrow> 'p trace \<Rightarrow> outcome \<times> 'p trace" where
  "reconstructAdd E fileName outputFile privAddr w0 =
     (let (privKey, compressed) = DecodePrivateKey E (c_str privAddr);
          w = w0 @ [Call (Call_DecodePrivateKey (c_str privAddr) (privKey, compressed))]
      in if privKey < 0 then (Exited (- 1), w)
         else
           (case parseFile E fileName [] w of
              (Inl status, w) \<Rightarrow> (Exited status, w)
            | (Inr lines, w) \<Rightarrow>
                reconstruct_loop E outputFile privKey compressed lines 0 w))"

declare reconstruct_loop.simps [simp del]

subsection \<open>Reading a trace\<close>

text \<open>The text the \<^verbatim>\<open>fprintf\<close> calls of a trace write to one stream, in order.\<close>

fun written :: "stream \<Rightarrow> 'p trace \<Rightarrow> string" where
  "written f [] = []"
| "written f (Fprintf g s # w) = (if g = f then s else []) @ written f w"
| "written f (_ # w) = written f w"

text \<open>The calls into the collaborators a trace records, in order.\<close>

fun calls_of :: "'p trace \<Rightarrow> 'p call list" where
  "calls_of [] = []"
| "calls_of (Call c # w) = c # calls_of w"
| "calls_of (_ # w) = calls_of w"

text \<open>The diagnostics a trace prints, in order.\<close>

fun printed :: "'p trace \<Rightarrow> diag list" where
  "printed [] = []"
| "printed (Printf d # w) = d # printed w"
| "printed (_ # w) = printed w"

text \<open>The scalars a trace passes to \<^verbatim>\<open>ComputePublicKey\<close>, in order.\<close>

fun tried :: "'p trace \<Rightarrow> int list" where
  "tried [] = []"
| "tried (Call (Call_ComputePublicKey k p) # w) = k # tried w"
| "tried (_ # w) = tried w"

text \<open>
  The number of records a trace writes to its sinks: every call of \<^verbatim>\<open>outputAdd\<close> starts
  its record with one \<^verbatim>\<open>fprintf\<close> of the line "Pub Addr: ..." after a newline, and no
  other \<^verbatim>\<open>fprintf\<close> of the program writes a text that starts so.
\<close>

fun emissions :: "'p trace \<Rightarrow> nat" where
  "emissions [] = 0"
| "emissions (Fprintf f s # w) =
     (if take 11 s = ''\<newline>Pub Addr: '' then 1 else 0) + emissions w"
| "emissions (_ # w) = emissions w"

subsection \<open>The six candidates of a record\<close>

text \<open>
  The values \<open>e\<close> holds at the six expansions of \<^verbatim>\<open>CHECK_ADDR\<close>, whether the address of a
  candidate is the target, and the events one expansion adds to the trace.
\<close>

definition transforms :: "int \<Rightarrow> int list" where
  "transforms privKey =
     [privKey, ModMulK1order privKey lambda, ModMulK1order privKey lambda2,
      - privKey + secp_order, - ModMulK1order privKey lambda + secp_order,
      - ModMulK1order privKey lambda2 + secp_order]"

definition hit :: "'p engine \<Rightarrow> addr_type \<Rightarrow> bool \<Rightarrow> string \<Rightarrow> int \<Rightarrow> int \<Rightarrow> bool" where
  "hit E addrType compressed addr partialPrivKey e \<longleftrightarrow>
     GetAddress E addrType compressed (ComputePublicKey E (ModAddK1order e partialPrivKey)) = addr"

definition check_events ::
  "'p engine \<Rightarrow> string \<Rightarrow> addr_type \<Rightarrow> bool \<Rightarrow> string \<Rightarrow> int \<Rightarrow> int \<Rightarrow> 'p trace" where
  "check_events E outputFile addrType compressed addr partialPrivKey e =
     snd (CHECK_ADDR E outputFile addrType compressed addr partialPrivKey e (False, []))"

subsection \<open>A stand-in for the collaborators\<close>

text \<open>
  A table-driven engine on which the functions can be run: a point is represented by
  its discrete logarithm (the scalar modulo the group order), \<open>keys\<close> lists the private
  key texts that decode, with the scalar and the compression flag the decoder delivers
  (any other text gives the sentinel \<open>- 1\<close>), \<open>names\<close> gives the text that stands for a
  number in an address or key, \<open>files\<close> the readable files and \<open>readonly\<close> the paths
  \<^verbatim>\<open>fopen(path, "a")\<close> fails on. An address is the character of its type (\<open>1\<close>, \<open>3\<close> or
  \<open>b\<close>), \<open>c\<close> or \<open>u\<close> for the compression mode, and the name of the point.
\<close>

definition stub_engine ::
  "(string \<times> int \<times> bool) list \<Rightarrow> (int \<times> string) list \<Rightarrow> (string \<times> string) list
     \<Rightarrow> string list \<Rightarrow> int engine" where
  "stub_engine keys names files readonly =
     \<lparr> ComputePublicKey = (\<lambda>k. k mod secp_order),
       GetAddress = (\<lambda>t c p.
          (case t of P2PKH \<Rightarrow> ''1'' | P2SH \<Rightarrow> ''3'' | BECH32 \<Rightarrow> ''b'')
          @ (if c then ''c'' else ''u'')
          @ (case map_of names p of Some s \<Rightarrow> s | None \<Rightarrow> ''?'')),
       GetPrivAddress = (\<lambda>c k.
          (if c then ''K'' else ''5'')
          @ (case map_of names k of Some s \<Rightarrow> s | None \<Rightarrow> ''?'')),
       GetPublicKeyHex = (\<lambda>c p.
          (if c then ''02'' else ''04'')
          @ (case map_of names p of Some s \<Rightarrow> s | None \<Rightarrow> ''?'')),
       DecodePrivateKey = (\<lambda>s. case map_of keys s of Some r \<Rightarrow> r | None \<Rightarrow> (- 1, False)),
       GetBase16 = (\<lambda>k. case map_of names k of Some s \<Rightarrow> s | None \<Rightarrow> ''?''),
       pbkdf2_hmac_sha512 = (\<lambda>n pw salt iters. replicate n 1),
       sha256 = (\<lambda>bs n.
          [0, 1, 2, 3, 4, 5, 6, 7, 8, 9, 10, 11, 12, 13, 14, 15, 16, 17, 18, 19,
           20, 21, 22, 23, 24, 25, 26, 27, 28, 29, 30, 31]),
       getSeed = (\<lambda>n. replicate (2 * n) CHR ''0''),
       fopen_append_ok = (\<lambda>path. path \<notin> set readonly),
       file_content = map_of files \<rparr>"

section \<open>Properties\<close>

subsection \<open>Traces and strings\<close>

lemma written_append: "written f (u @ v) = written f u @ written f v"
  by (induction f u rule: written.induct) auto

lemma calls_of_append: "calls_of (u @ v) = calls_of u @ calls_of v"
  by (induction u rule: calls_of.induct) auto

lemma tried_append: "tried (u @ v) = tried u @ tried v"
  by (induction u rule: tried.induct) auto

lemma emissions_append: "emissions (u @ v) = emissions u + emissions v"
  by (induction u rule: emissions.induct) auto

lemma c_str_id: "CHR 0x00 \<notin> set s \<Longrightarrow> c_str s = s"
  by (auto simp add: c_str_def)

text \<open>The definitions a run on the stand-in engine unfolds.\<close>

lemmas run_defs =
  reconstructAdd_def parseFile_def parse_step_def rstrip_def isspace_def c_str_def
  reconstruct_loop.simps loop_body_def first_char_def addrType_of_def
  reconstruct_record_def CHECK_ADDR_def outputAdd_def ModAddK1order_def ModMulK1order_def
  secp_order_def lambda_def lambda2_def stub_engine_def Let_def

subsection \<open>generateKeyPair\<close>

text \<open>
  The scalar \<^verbatim>\<open>generateKeyPair\<close> reads out of the digest is any number below \<open>2 ^ 256\<close>:
  it is not reduced, and a digest of 32 bytes \<open>0xFF\<close> gives a scalar above the group
  order.
\<close>

lemma Int_of_bits64_nonneg: "0 \<le> Int_of_bits64 bs"
proof -
  have "0 \<le> foldr (\<lambda>b acc. uint b + 256 * acc) xs 0" for xs :: "8 word list"
    by (induction xs) auto
  then show ?thesis by (simp add: Int_of_bits64_def)
qed

lemma foldr_bytes_bound:
  "foldr (\<lambda>b acc. uint b + 256 * acc) xs 0 < 256 ^ length xs" for xs :: "8 word list"
proof (induction xs)
  case Nil
  then show ?case by simp
next
  case (Cons x xs)
  have "uint x < 256" using uint_bounded [of x] by simp
  with Cons show ?case by simp
qed

lemma Int_of_bits64_bound: "Int_of_bits64 bs < 2 ^ 256"
proof -
  have "Int_of_bits64 bs < 256 ^ length (take 32 bs)"
    unfolding Int_of_bits64_def by (rule foldr_bytes_bound)
  also have "\<dots> \<le> (256 :: int) ^ 32"
    by (rule power_increasing) simp_all
  finally show ?thesis by simp
qed

lemma foldr_bytes_all_ones:
  "foldr (\<lambda>b acc. uint b + 256 * acc) (replicate n (255 :: 8 word)) 0 = 256 ^ n - 1"
  by (induction n) simp_all

lemma Int_of_bits64_above_order: "secp_order < Int_of_bits64 (replicate 32 255)"
proof -
  have "take 32 (replicate 32 (255 :: 8 word)) = replicate 32 255"
    by simp
  then have "Int_of_bits64 (replicate 32 255) = 256 ^ 32 - 1"
    unfolding Int_of_bits64_def by (simp only: foldr_bytes_all_ones)
  then show ?thesis
    by (simp add: secp_order_def)
qed

text \<open>
  The scalar is the digest read as a number, least significant byte first: byte \<open>i\<close> of
  the digest counts \<open>256 ^ i\<close>.
\<close>

lemma foldr_bytes_sum:
  "foldr (\<lambda>b acc. uint b + 256 * acc) xs 0 = (\<Sum>i<length xs. uint (xs ! i) * 256 ^ i)"
  for xs :: "8 word list"
proof (induction xs)
  case Nil
  then show ?case by simp
next
  case (Cons x xs)
  have "(\<Sum>i<length (x # xs). uint ((x # xs) ! i) * 256 ^ i) =
      (\<Sum>i<Suc (length xs). uint ((x # xs) ! i) * 256 ^ i)"
    by simp
  also have "\<dots> = uint ((x # xs) ! 0) * 256 ^ 0 +
      (\<Sum>i<length xs. uint ((x # xs) ! Suc i) * 256 ^ Suc i)"
    by (rule sum.lessThan_Suc_shift)
  also have "\<dots> = uint x + 256 * (\<Sum>i<length xs. uint (xs ! i) * 256 ^ i)"
    by (simp add: sum_distrib_left ac_simps)
  finally show ?case
    using Cons by simp
qed

lemma Int_of_bits64_sum:
  "Int_of_bits64 bs = (\<Sum>i<min 32 (length bs). uint (bs ! i) * 256 ^ i)"
proof -
  have "Int_of_bits64 bs = (\<Sum>i<length (take 32 bs). uint (take 32 bs ! i) * 256 ^ i)"
    unfolding Int_of_bits64_def by (rule foldr_bytes_sum)
  also have "\<dots> = (\<Sum>i<min 32 (length bs). uint (bs ! i) * 256 ^ i)"
    by (rule sum.cong) (simp_all add: min.commute)
  finally show ?thesis .
qed

text \<open>
  C5. A seed of fewer than 8 characters: \<^verbatim>\<open>generateKeyPair\<close> prints the two lines of the
  seed error and exits with status \<open>- 1\<close>, whatever the search mode and the paranoiac
  flag are. The trace gains no call: the random source, PBKDF2, SHA-256 and the
  generator multiplication are not reached.
\<close>

theorem short_seed_rejected:
  "length seed < 8 \<Longrightarrow>
   generateKeyPair E seed searchMode paranoiacSeed w =
     (Exited (- 1), w @ [Printf SeedTooShort, Printf SeedExample]) \<and>
   calls_of (snd (generateKeyPair E seed searchMode paranoiacSeed w)) = calls_of w"
  by (simp add: generateKeyPair_def calls_of_append)

theorem short_seed_rejected_witness:
  "length ''abc'' < 8 \<and>
   generateKeyPair (stub_engine [] [] [] []) ''abc'' SEARCH_BOTH True [] =
     (Exited (- 1), [Printf SeedTooShort, Printf SeedExample]) \<and>
   calls_of (snd (generateKeyPair (stub_engine [] [] [] []) ''abc'' SEARCH_BOTH True [])) = []"
  using short_seed_rejected [where seed = "''abc''" and E = "stub_engine [] [] [] []"
      and searchMode = SEARCH_BOTH and paranoiacSeed = True and w = "[]"]
  by simp

text \<open>
  C4. A seed of at least 8 characters and a search mode other than
  \<^verbatim>\<open>SEARCH_BOTH\<close>: \<^verbatim>\<open>generateKeyPair\<close> returns after exactly these steps. Only when the
  paranoiac flag is set it asks the random source for 32 bytes and appends what it gets
  to the seed; it calls PBKDF2-HMAC-SHA-512 for 64 bytes on the seed with the salt
  "VanitySearch" and 2048 iterations; it calls SHA-256 on those 64 bytes; the private
  scalar is the number whose byte \<open>i\<close>, counted from the least significant one, is byte
  \<open>i\<close> of the digest, for the 32 bytes of the digest, with no reduction modulo the
  group order; the public point is \<^verbatim>\<open>ComputePublicKey\<close> of that scalar; both are printed.
\<close>

theorem derivation_algorithm:
  "8 \<le> length seed \<Longrightarrow> searchMode \<noteq> SEARCH_BOTH \<Longrightarrow>
   generateKeyPair E seed searchMode paranoiacSeed w =
     (let seed' = (if paranoiacSeed then seed @ getSeed E 32 else seed);
          hseed = pbkdf2_hmac_sha512 E 64 seed' ''VanitySearch'' 2048;
          digest = sha256 E hseed 64;
          privKey = (\<Sum>i<min 32 (length digest). uint (digest ! i) * 256 ^ i);
          p = ComputePublicKey E privKey;
          compressed = (searchMode = SEARCH_COMPRESSED)
      in (Returned,
          w @ (if paranoiacSeed then [Call (Call_getSeed 32 (getSeed E 32))] else []) @
          [Call (Call_pbkdf2_hmac_sha512 64 seed' ''VanitySearch'' 2048 hseed),
           Call (Call_sha256 hseed 64 digest),
           Call (Call_ComputePublicKey privKey p),
           Printf (PrivLine (c_str (GetPrivAddress E compressed privKey))),
           Printf (PubLine (c_str (GetPublicKeyHex E compressed p)))]))"
  by (simp add: generateKeyPair_def Let_def Int_of_bits64_sum)

text \<open>
  On the stand-in engine the digest is the bytes 0, 1, ..., 31, and the scalar is
  \<open>0x1f1e...0100\<close>: byte 0 of the digest is its least significant byte.
\<close>

theorem derivation_algorithm_witness:
  "8 \<le> length ''correct horse'' \<and> SEARCH_UNCOMPRESSED \<noteq> SEARCH_BOTH \<and>
   generateKeyPair (stub_engine [] [] [] []) ''correct horse'' SEARCH_UNCOMPRESSED True [] =
     (Returned,
      [Call (Call_getSeed 32 (replicate 64 CHR ''0'')),
       Call (Call_pbkdf2_hmac_sha512 64 (''correct horse'' @ replicate 64 CHR ''0'')
               ''VanitySearch'' 2048 (replicate 64 1)),
       Call (Call_sha256 (replicate 64 1) 64
               [0, 1, 2, 3, 4, 5, 6, 7, 8, 9, 10, 11, 12, 13, 14, 15, 16, 17, 18, 19,
                20, 21, 22, 23, 24, 25, 26, 27, 28, 29, 30, 31]),
       Call (Call_ComputePublicKey
               0x1f1e1d1c1b1a191817161514131211100f0e0d0c0b0a09080706050403020100
               (0x1f1e1d1c1b1a191817161514131211100f0e0d0c0b0a09080706050403020100
                  mod secp_order)),
       Printf (PrivLine ''5?''),
       Printf (PubLine ''04?'')])"
proof -
  have scalar:
    "(\<Sum>i<min 32 (length ([0, 1, 2, 3, 4, 5, 6, 7, 8, 9, 10, 11, 12, 13, 14, 15, 16, 17, 18,
         19, 20, 21, 22, 23, 24, 25, 26, 27, 28, 29, 30, 31] :: 8 word list)).
       uint (([0, 1, 2, 3, 4, 5, 6, 7, 8, 9, 10, 11, 12, 13, 14, 15, 16, 17, 18,
         19, 20, 21, 22, 23, 24, 25, 26, 27, 28, 29, 30, 31] :: 8 word list) ! i) * 256 ^ i) =
     0x1f1e1d1c1b1a191817161514131211100f0e0d0c0b0a09080706050403020100"
    by (simp only: Int_of_bits64_sum [symmetric]) (simp add: Int_of_bits64_def)
  show ?thesis
    using derivation_algorithm [where seed = "''correct horse''"
        and searchMode = SEARCH_UNCOMPRESSED and E = "stub_engine [] [] [] []"
        and paranoiacSeed = True and w = "[]"] scalar
    by (simp add: stub_engine_def c_str_def Let_def)
qed

text \<open>
  C9. With the paranoiac flag off and a seed of at least 8 characters, the result of
  \<^verbatim>\<open>generateKeyPair\<close> does not depend on the random source: two runs on the same seed and
  search mode whose engines differ only in what \<^verbatim>\<open>Timer::getSeed\<close> would deliver end the
  same way with the same trace, and so with the same private scalar and the same
  public point (both are in the trace, as the argument and the result of
  \<^verbatim>\<open>ComputePublicKey\<close>).
\<close>

theorem derive_deterministic:
  "8 \<le> length seed \<Longrightarrow>
   generateKeyPair (E\<lparr>getSeed := r1\<rparr>) seed searchMode False w =
   generateKeyPair (E\<lparr>getSeed := r2\<rparr>) seed searchMode False w"
  by (simp add: generateKeyPair_def Let_def)

theorem derive_deterministic_witness:
  "8 \<le> length ''correct horse'' \<and>
   generateKeyPair (stub_engine [] [] [] [] \<lparr>getSeed := \<lambda>n. replicate n CHR ''a''\<rparr>)
     ''correct horse'' SEARCH_COMPRESSED False [] =
   generateKeyPair (stub_engine [] [] [] [] \<lparr>getSeed := \<lambda>n. replicate n CHR ''b''\<rparr>)
     ''correct horse'' SEARCH_COMPRESSED False []"
  using derive_deterministic [where seed = "''correct horse''"
      and E = "stub_engine [] [] [] []" and ?r1.0 = "\<lambda>n. replicate n CHR ''a''"
      and ?r2.0 = "\<lambda>n. replicate n CHR ''b''" and searchMode = SEARCH_COMPRESSED and w = "[]"]
  by simp

subsection \<open>outputAdd\<close>

lemma outputAdd_append:
  "outputAdd E outputFile addrType addr pAddr pAddrHex w =
   w @ outputAdd E outputFile addrType addr pAddr pAddrHex []"
  by (cases addrType) (simp_all add: outputAdd_def Let_def)

lemma tried_outputAdd: "tried (outputAdd E outputFile addrType addr pAddr pAddrHex []) = []"
  by (cases addrType) (simp_all add: outputAdd_def Let_def)

lemma emissions_outputAdd:
  "emissions (outputAdd E outputFile addrType addr pAddr pAddrHex []) = 1"
  by (cases addrType) (simp_all add: outputAdd_def Let_def)

lemma Printf_outputAdd:
  "Printf d \<in> set (outputAdd E outputFile addrType addr pAddr pAddrHex []) \<Longrightarrow>
   d = CannotOpenForWriting (c_str outputFile)"
  by (cases addrType) (auto simp: outputAdd_def Let_def split: if_splits)

text \<open>The text of the record, on the stream \<^verbatim>\<open>outputAdd\<close> ends up writing to.\<close>

lemma written_outputAdd:
  "written (if outputFile \<noteq> [] \<and> fopen_append_ok E (c_str outputFile)
            then FileStream (c_str outputFile) else Stdout)
     (outputAdd E outputFile addrType addr pAddr pAddrHex []) =
   ''\<newline>Pub Addr: '' @ c_str addr @ ''\<newline>'' @
   ''Priv (WIF): '' @
     (case addrType of P2PKH \<Rightarrow> ''p2pkh:'' | P2SH \<Rightarrow> ''p2wpkh-p2sh:''
      | BECH32 \<Rightarrow> ''p2wpkh:'') @ c_str pAddr @ ''\<newline>'' @
   ''Priv (HEX): 0x'' @ c_str pAddrHex @ ''\<newline>''"
  by (cases addrType) (auto simp: outputAdd_def Let_def)

text \<open>
  C8. Every call of \<^verbatim>\<open>outputAdd\<close> writes one record and keeps what was in the trace.
  With an output path it first calls \<^verbatim>\<open>fopen\<close> on the path in mode "a"; the record goes
  to that file when the call succeeds, and to \<^verbatim>\<open>stdout\<close>, after the diagnostic, when it
  fails; without a path it goes to \<^verbatim>\<open>stdout\<close> and no file is opened. The text written to
  that stream is, in order, an empty line, the address, the private key text after the
  tag of the address type, and the private key in hexadecimal (each string as \<^verbatim>\<open>%s\<close>
  prints it); nothing is written to any other stream.
\<close>

theorem outputAdd_fixed_record:
  "\<exists>evs.
     outputAdd E outputFile addrType addr pAddr pAddrHex w = w @ evs \<and>
     (let path = c_str outputFile;
          opened = (outputFile \<noteq> [] \<and> fopen_append_ok E path);
          f = (if opened then FileStream path else Stdout)
      in written f evs =
           ''\<newline>Pub Addr: '' @ c_str addr @ ''\<newline>'' @
           ''Priv (WIF): '' @
             (case addrType of P2PKH \<Rightarrow> ''p2pkh:'' | P2SH \<Rightarrow> ''p2wpkh-p2sh:''
              | BECH32 \<Rightarrow> ''p2wpkh:'') @ c_str pAddr @ ''\<newline>'' @
           ''Priv (HEX): 0x'' @ c_str pAddrHex @ ''\<newline>'' \<and>
         (\<forall>g. g \<noteq> f \<longrightarrow> written g evs = []) \<and>
         (outputFile \<noteq> [] \<longrightarrow> hd evs = Fopen path ''a'' (fopen_append_ok E path)) \<and>
         (outputFile = [] \<longrightarrow> (\<forall>p m ok. Fopen p m ok \<notin> set evs)) \<and>
         (outputFile \<noteq> [] \<and> \<not> fopen_append_ok E path \<longrightarrow>
            Printf (CannotOpenForWriting path) \<in> set evs))"
  by (cases addrType) (auto simp: outputAdd_def Let_def)

theorem outputAdd_fixed_record_witness:
  "(\<exists>evs.
     outputAdd (stub_engine [] [] [] [''/ro/out.txt'']) ''/ro/out.txt'' P2SH ''3abc'' ''Kxyz''
       ''ff'' [] = evs \<and>
     written Stdout evs =
       ''\<newline>Pub Addr: 3abc\<newline>Priv (WIF): p2wpkh-p2sh:Kxyz\<newline>Priv (HEX): 0xff\<newline>'' \<and>
     written (FileStream ''/ro/out.txt'') evs = [] \<and>
     hd evs = Fopen ''/ro/out.txt'' ''a'' False \<and>
     Printf (CannotOpenForWriting ''/ro/out.txt'') \<in> set evs) \<and>
   (\<exists>evs.
     outputAdd (stub_engine [] [] [] [''/ro/out.txt'']) ''out.txt'' P2PKH ''1abc'' ''5xyz''
       ''0a'' [] = evs \<and>
     written (FileStream ''out.txt'') evs =
       ''\<newline>Pub Addr: 1abc\<newline>Priv (WIF): p2pkh:5xyz\<newline>Priv (HEX): 0x0a\<newline>'' \<and>
     written Stdout evs = [] \<and>
     hd evs = Fopen ''out.txt'' ''a'' True) \<and>
   (\<exists>evs.
     outputAdd (stub_engine [] [] [] [''/ro/out.txt'']) [] BECH32 ''bc1q'' ''Lxyz''
       ''0b'' [] = evs \<and>
     written Stdout evs =
       ''\<newline>Pub Addr: bc1q\<newline>Priv (WIF): p2wpkh:Lxyz\<newline>Priv (HEX): 0x0b\<newline>'' \<and>
     (\<forall>p m ok. Fopen p m ok \<notin> set evs))"
  using outputAdd_fixed_record [where E = "stub_engine [] [] [] [''/ro/out.txt'']"
      and outputFile = "''/ro/out.txt''" and addrType = P2SH and addr = "''3abc''"
      and pAddr = "''Kxyz''" and pAddrHex = "''ff''" and w = "[]"]
    outputAdd_fixed_record [where E = "stub_engine [] [] [] [''/ro/out.txt'']"
      and outputFile = "''out.txt''" and addrType = P2PKH and addr = "''1abc''"
      and pAddr = "''5xyz''" and pAddrHex = "''0a''" and w = "[]"]
    outputAdd_fixed_record [where E = "stub_engine [] [] [] [''/ro/out.txt'']"
      and outputFile = "[]" and addrType = BECH32 and addr = "''bc1q''"
      and pAddr = "''Lxyz''" and pAddrHex = "''0b''" and w = "[]"]
  by (simp add: stub_engine_def c_str_def Let_def)

subsection \<open>The six candidates\<close>

text \<open>
  The two constants are the cube roots of unity modulo the group order other than 1,
  each the square of the other.
\<close>

lemma lambda_cube_roots:
  "lambda * lambda mod secp_order = lambda2"
  "lambda * lambda2 mod secp_order = 1"
  "lambda2 * lambda2 mod secp_order = lambda"
  "1 < lambda" "lambda < secp_order" "1 < lambda2" "lambda2 < secp_order"
  by (simp_all add: lambda_def lambda2_def secp_order_def)

lemma transforms_eq:
  "transforms k =
     [k, k * lambda mod secp_order, k * lambda2 mod secp_order,
      secp_order - k, secp_order - k * lambda mod secp_order,
      secp_order - k * lambda2 mod secp_order]"
  by (simp add: transforms_def ModMulK1order_def)

lemma hit_eq:
  "hit E addrType compressed addr partialPrivKey =
   (\<lambda>T. GetAddress E addrType compressed
           (ComputePublicKey E ((partialPrivKey + T) mod secp_order)) = addr)"
  by (rule ext) (simp add: hit_def ModAddK1order_def add.commute)

lemma ModAddK1order_eq:
  "(\<lambda>e. ModAddK1order e partialPrivKey) = (\<lambda>T. (partialPrivKey + T) mod secp_order)"
  by (rule ext) (simp add: ModAddK1order_def add.commute)

text \<open>One expansion of \<^verbatim>\<open>CHECK_ADDR\<close> appends its events and can only set \<open>found\<close>.\<close>

lemma CHECK_ADDR_eq:
  "CHECK_ADDR E outputFile addrType compressed addr partialPrivKey e (found, w) =
   (found \<or> hit E addrType compressed addr partialPrivKey e,
    w @ check_events E outputFile addrType compressed addr partialPrivKey e)"
  using outputAdd_append [of E outputFile addrType addr _ _ "w @ [_]"]
    outputAdd_append [of E outputFile addrType addr _ _ "[_]"]
  by (simp add: CHECK_ADDR_def check_events_def hit_def Let_def)

lemma check_events_eq:
  "check_events E outputFile addrType compressed addr partialPrivKey e =
     Call (Call_ComputePublicKey (ModAddK1order e partialPrivKey)
             (ComputePublicKey E (ModAddK1order e partialPrivKey))) #
     (if hit E addrType compressed addr partialPrivKey e
      then outputAdd E outputFile addrType addr
             (GetPrivAddress E compressed (ModAddK1order e partialPrivKey))
             (GetBase16 E (ModAddK1order e partialPrivKey)) []
      else [])"
  using outputAdd_append [of E outputFile addrType addr _ _ "[_]"]
  by (simp add: CHECK_ADDR_def check_events_def hit_def Let_def)

text \<open>The block of one record, in closed form: six expansions, one after the other.\<close>

lemma reconstruct_record_eq:
  "reconstruct_record E outputFile addrType compressed addr partialPrivAddr privKey
       partialPrivKey i w =
   w @ concat (map (check_events E outputFile addrType compressed addr partialPrivKey)
                 (transforms privKey))
     @ (if list_ex (hit E addrType compressed addr partialPrivKey) (transforms privKey)
        then []
        else [Printf (UnableToReconstruct i (c_str addr) (c_str partialPrivAddr))])"
  by (simp add: reconstruct_record_def CHECK_ADDR_eq transforms_def)

lemma tried_check_events:
  "tried (check_events E outputFile addrType compressed addr partialPrivKey e) =
   [ModAddK1order e partialPrivKey]"
  by (simp add: check_events_eq tried_outputAdd)

lemma emissions_check_events:
  "emissions (check_events E outputFile addrType compressed addr partialPrivKey e) =
   (if hit E addrType compressed addr partialPrivKey e then 1 else 0)"
  by (simp add: check_events_eq emissions_outputAdd)

lemma tried_concat_check_events:
  "tried (concat (map (check_events E outputFile addrType compressed addr partialPrivKey) es)) =
   map (\<lambda>e. ModAddK1order e partialPrivKey) es"
  by (induction es) (simp_all add: tried_append tried_check_events)

lemma emissions_concat_check_events:
  "emissions (concat (map (check_events E outputFile addrType compressed addr partialPrivKey) es)) =
   length (filter (hit E addrType compressed addr partialPrivKey) es)"
  by (induction es) (simp_all add: emissions_append emissions_check_events)

lemma Printf_check_events:
  "Printf d \<in> set (check_events E outputFile addrType compressed addr partialPrivKey e) \<Longrightarrow>
   d = CannotOpenForWriting (c_str outputFile)"
  by (auto simp: check_events_eq dest: Printf_outputAdd split: if_splits)

lemma reported_unresolved:
  "(Printf (UnableToReconstruct i (c_str addr) (c_str partialPrivAddr))
      \<in> set (drop (length w)
           (reconstruct_record E outputFile addrType compressed addr partialPrivAddr privKey
              partialPrivKey i w))) =
   (filter (hit E addrType compressed addr partialPrivKey) (transforms privKey) = [])"
  by (auto simp add: reconstruct_record_eq list_ex_iff filter_empty_conv
      dest: Printf_check_events)

lemma concat_map_split:
  "e \<in> set es \<Longrightarrow> \<exists>pre post. concat (map f es) = pre @ f e @ post"
proof -
  assume "e \<in> set es"
  then obtain ys zs where "es = ys @ e # zs"
    by (auto simp: in_set_conv_decomp)
  then have "concat (map f es) = concat (map f ys) @ f e @ concat (map f zs)"
    by simp
  then show ?thesis by blast
qed

text \<open>
  C2, as the code has it. The block that handles a record has no short circuit: it
  passes all six candidates \<open>(partial + T) mod n\<close>, \<open>T\<close> running through
  \<open>k\<close>, \<open>k\<lambda> mod n\<close>, \<open>k\<lambda>\<^sup>2 mod n\<close>, \<open>n - k\<close>, \<open>n - (k\<lambda> mod n)\<close>, \<open>n - (k\<lambda>\<^sup>2 mod n)\<close> in
  this order, to \<^verbatim>\<open>ComputePublicKey\<close>, whether or not an earlier one matched; the sinks
  receive one record for every candidate whose address is the target; and the record
  is reported as not reconstructed exactly when no candidate matches.
\<close>

theorem all_six_transforms_tried:
  "let Ts = [privKey, privKey * lambda mod secp_order, privKey * lambda2 mod secp_order,
             secp_order - privKey, secp_order - privKey * lambda mod secp_order,
             secp_order - privKey * lambda2 mod secp_order];
       candidate = (\<lambda>T. (partialPrivKey + T) mod secp_order);
       matches = (\<lambda>T. GetAddress E addrType compressed (ComputePublicKey E (candidate T)) = addr);
       w' = reconstruct_record E outputFile addrType compressed addr partialPrivAddr privKey
              partialPrivKey i w
   in tried w' = tried w @ map candidate Ts \<and>
      emissions w' = emissions w + length (filter matches Ts) \<and>
      (Printf (UnableToReconstruct i (c_str addr) (c_str partialPrivAddr))
         \<in> set (drop (length w) w')) = (filter matches Ts = [])"
proof -
  let ?r = "reconstruct_record E outputFile addrType compressed addr partialPrivAddr privKey
              partialPrivKey i w"
  have "tried ?r = tried w @ map (\<lambda>e. ModAddK1order e partialPrivKey) (transforms privKey)"
    by (simp only: reconstruct_record_eq tried_append tried_concat_check_events) simp
  moreover have "emissions ?r =
      emissions w +
      length (filter (hit E addrType compressed addr partialPrivKey) (transforms privKey))"
    by (simp only: reconstruct_record_eq emissions_append emissions_concat_check_events) simp
  moreover note reported_unresolved [of i addr partialPrivAddr w E outputFile addrType
      compressed privKey partialPrivKey]
  ultimately show ?thesis
    unfolding Let_def by (simp only: ModAddK1order_eq hit_eq transforms_eq)
qed

text \<open>
  The claim as stated fails. The known key is the scalar 0, so all six candidates
  equal the partial key 5, whose address is the target of the only record: every one
  of the six is passed to \<^verbatim>\<open>ComputePublicKey\<close> and six records are written for it.
\<close>

theorem first_match_counterexample:
  "emissions (snd (reconstructAdd
      (stub_engine [(''K0'', 0, True), (''K5'', 5, True)] [(5, ''five'')]
         [(''in.txt'', ''PubAddress: 1cfive\<newline>PartialPriv: K5\<newline>'')] [])
      ''in.txt'' '''' ''K0'' [])) = 6 \<and>
   tried (snd (reconstructAdd
      (stub_engine [(''K0'', 0, True), (''K5'', 5, True)] [(5, ''five'')]
         [(''in.txt'', ''PubAddress: 1cfive\<newline>PartialPriv: K5\<newline>'')] [])
      ''in.txt'' '''' ''K0'' [])) = [5, 5, 5, 5, 5, 5]"
  by (simp add: run_defs)

subsection \<open>The loop over the records\<close>

lemma reconstruct_loop_done:
  "length lines \<le> i \<Longrightarrow>
   reconstruct_loop E outputFile privKey compressed lines i w = (Returned, w)"
  by (subst reconstruct_loop.simps) simp

lemma reconstruct_loop_step:
  "i < length lines \<Longrightarrow>
   reconstruct_loop E outputFile privKey compressed lines i w =
     (case loop_body E outputFile privKey compressed lines i w of
        Continue w' \<Rightarrow> reconstruct_loop E outputFile privKey compressed lines (i + 2) w'
      | Break oc w' \<Rightarrow> (oc, w'))"
  by (subst reconstruct_loop.simps) simp

lemma addrType_of_NoneD:
  "addrType_of c = None \<Longrightarrow> c \<notin> {CHR ''1'', CHR ''3'', CHR ''b'', CHR ''B''}"
  by (simp add: addrType_of_def split: if_splits)

lemma addrType_of_SomeD:
  "addrType_of c = Some t \<Longrightarrow> c \<in> {CHR ''1'', CHR ''3'', CHR ''b'', CHR ''B''}"
  by (simp add: addrType_of_def split: if_splits)

text \<open>The body of the loop on a well-formed record whose compression mode is the run's.\<close>

lemma loop_body_record:
  assumes "i + 1 < length lines"
    and "lines ! i = ''PubAddress: '' @ addr"
    and "addrType_of (first_char addr) = Some addrType"
    and "lines ! (i + 1) = ''PartialPriv: '' @ partialPrivAddr"
    and "DecodePrivateKey E (c_str partialPrivAddr) = (partialPrivKey, compressed)"
    and "0 \<le> privKey"
  shows "loop_body E outputFile privKey compressed lines i w =
     Continue (reconstruct_record E outputFile addrType compressed addr partialPrivAddr privKey
       partialPrivKey i
       (w @ [Call (Call_DecodePrivateKey (c_str partialPrivAddr) (partialPrivKey, compressed))]))"
  using assms by (simp add: loop_body_def)

text \<open>
  The body of the loop on a well-formed record whose partial key decodes with a
  compression flag other than the known key's: a warning, and on to the next record.
  Neither this nor the previous case looks at the sign of the decoded partial key.
\<close>

lemma loop_body_mode_mismatch:
  assumes "i + 1 < length lines"
    and "lines ! i = ''PubAddress: '' @ addr"
    and "addrType_of (first_char addr) = Some addrType"
    and "lines ! (i + 1) = ''PartialPriv: '' @ partialPrivAddr"
    and "DecodePrivateKey E (c_str partialPrivAddr) = (partialPrivKey, partialMode)"
    and "partialMode \<noteq> compressed"
    and "0 \<le> privKey"
  shows "loop_body E outputFile privKey compressed lines i w =
     Continue (w @ [Call (Call_DecodePrivateKey (c_str partialPrivAddr)
                            (partialPrivKey, partialMode)),
                    Printf (WrongCompressionMode i)])"
  using assms by (simp add: loop_body_def)

text \<open>
  The test that follows the decoding of a record's partial key reads the sign of the
  known key, and where it fires the run ends: it prints the diagnostic and exits with
  status \<open>- 1\<close>.
\<close>

lemma sentinel_guard_is_fatal:
  assumes "i + 1 < length lines"
    and "take 12 (lines ! i) = ''PubAddress: ''"
    and "addrType_of (first_char (drop 12 (lines ! i))) = Some addrType"
    and "take 13 (lines ! (i + 1)) = ''PartialPriv: ''"
    and "privKey < 0"
  shows "loop_body E outputFile privKey compressed lines i w =
     Break (Exited (- 1))
       (w @ [Call (Call_DecodePrivateKey (c_str (drop 13 (lines ! (i + 1))))
                     (DecodePrivateKey E (c_str (drop 13 (lines ! (i + 1)))))),
             Printf (InvalidLine i)])"
  using assms by (simp add: loop_body_def Let_def split: prod.splits)

text \<open>
  C1, as the code has it. The known key decodes to a scalar \<open>k \<ge> 0\<close> and a compression
  flag; the file holds one record, the two lines "PubAddress: addr" and
  "PartialPriv: text"; the first character of \<open>addr\<close> selects the address type; the
  partial key text decodes to \<open>partial\<close> with the same compression flag as the known
  key; and \<open>addr\<close> is the address, for that type and flag, of the public point of
  \<open>(partial + T) mod n\<close>, where \<open>T\<close> is one of
  \<open>k\<close>, \<open>k\<lambda> mod n\<close>, \<open>k\<lambda>\<^sup>2 mod n\<close>, \<open>n - k\<close>, \<open>n - (k\<lambda> mod n)\<close>, \<open>n - (k\<lambda>\<^sup>2 mod n)\<close>. Then
  \<^verbatim>\<open>reconstructAdd\<close> returns and does not report the record as not reconstructed; at
  least one record is written; and the text written to the sink (the output file, or
  \<^verbatim>\<open>stdout\<close> without one or when it cannot be opened) contains the record of \<open>addr\<close>
  with the private key text and the hexadecimal form of \<open>(partial + T) mod n\<close>, the
  scalar whose address is \<open>addr\<close>.
\<close>

theorem reconstruction_complete:
  assumes known: "DecodePrivateKey E (c_str privAddr) = (k, compressed)" "0 \<le> k"
    and loaded: "parseFile E fileName []
                 (w @ [Call (Call_DecodePrivateKey (c_str privAddr) (k, compressed))]) =
               (Inr [''PubAddress: '' @ addr, ''PartialPriv: '' @ partialPrivAddr], w1)"
    and atype: "addrType_of (first_char addr) = Some addrType"
    and part: "DecodePrivateKey E (c_str partialPrivAddr) = (partial, compressed)"
    and six: "T = k \<or> T = k * lambda mod secp_order \<or> T = k * lambda2 mod secp_order \<or>
        T = secp_order - k \<or> T = secp_order - k * lambda mod secp_order \<or>
        T = secp_order - k * lambda2 mod secp_order"
    and target: "addr = GetAddress E addrType compressed
                   (ComputePublicKey E ((partial + T) mod secp_order))"
  shows "\<exists>evs pre post.
     reconstructAdd E fileName outputFile privAddr w = (Returned, w1 @ evs) \<and>
     (\<forall>i a p. Printf (UnableToReconstruct i a p) \<notin> set evs) \<and>
     1 \<le> emissions evs \<and>
     written (if outputFile \<noteq> [] \<and> fopen_append_ok E (c_str outputFile)
              then FileStream (c_str outputFile) else Stdout) evs =
       pre @
       ''\<newline>Pub Addr: '' @ c_str addr @ ''\<newline>'' @
       ''Priv (WIF): '' @
         (case addrType of P2PKH \<Rightarrow> ''p2pkh:'' | P2SH \<Rightarrow> ''p2wpkh-p2sh:''
          | BECH32 \<Rightarrow> ''p2wpkh:'') @
         c_str (GetPrivAddress E compressed ((partial + T) mod secp_order)) @ ''\<newline>'' @
       ''Priv (HEX): 0x'' @ c_str (GetBase16 E ((partial + T) mod secp_order)) @ ''\<newline>'' @
       post \<and>
     GetAddress E addrType compressed (ComputePublicKey E ((partial + T) mod secp_order)) = addr"
proof -
  define ls where "ls = [''PubAddress: '' @ addr, ''PartialPriv: '' @ partialPrivAddr]"
  define full where "full = (partial + T) mod secp_order"
  define f where "f = (if outputFile \<noteq> [] \<and> fopen_append_ok E (c_str outputFile)
              then FileStream (c_str outputFile) else Stdout)"
  define rec_text where "rec_text =
       ''\<newline>Pub Addr: '' @ c_str addr @ ''\<newline>'' @
       ''Priv (WIF): '' @
         (case addrType of P2PKH \<Rightarrow> ''p2pkh:'' | P2SH \<Rightarrow> ''p2wpkh-p2sh:''
          | BECH32 \<Rightarrow> ''p2wpkh:'') @
         c_str (GetPrivAddress E compressed full) @ ''\<newline>'' @
       ''Priv (HEX): 0x'' @ c_str (GetBase16 E full) @ ''\<newline>''"
  let ?d = "Call (Call_DecodePrivateKey (c_str partialPrivAddr) (partial, compressed))"
  let ?chk = "check_events E outputFile addrType compressed addr partial"
  let ?out = "outputAdd E outputFile addrType addr (GetPrivAddress E compressed full)
        (GetBase16 E full) []"
  have ls: "length ls = 2" "ls ! 0 = ''PubAddress: '' @ addr"
    "ls ! 1 = ''PartialPriv: '' @ partialPrivAddr"
    by (simp_all add: ls_def)
  have full: "ModAddK1order T partial = full"
    by (simp add: ModAddK1order_def full_def add.commute)
  have T_in: "T \<in> set (transforms k)"
    using six by (auto simp: transforms_eq)
  have T_hit: "hit E addrType compressed addr partial T"
    using target by (simp add: hit_eq)
  have ex: "list_ex (hit E addrType compressed addr partial) (transforms k)"
    using T_in T_hit by (auto simp: list_ex_iff)
  have body: "loop_body E outputFile k compressed ls 0 w1 =
      Continue (reconstruct_record E outputFile addrType compressed addr partialPrivAddr k
        partial 0 (w1 @ [?d]))"
    using loop_body_record [of 0 ls addr addrType partialPrivAddr E partial compressed k]
      atype part known(2) ls by simp
  have stop: "reconstruct_loop E outputFile k compressed ls i w' = (Returned, w')"
    if "2 \<le> i" for w' i
    using that by (simp add: reconstruct_loop_done ls)
  have loop: "reconstruct_loop E outputFile k compressed ls 0 w1 =
      (Returned, w1 @ ?d # concat (map ?chk (transforms k)))"
    by (subst reconstruct_loop.simps) (simp add: ls body stop reconstruct_record_eq ex)
  have run: "reconstructAdd E fileName outputFile privAddr w =
      (Returned, w1 @ ?d # concat (map ?chk (transforms k)))"
    using known loaded loop by (simp add: reconstructAdd_def ls_def)
  obtain pre post where split: "concat (map ?chk (transforms k)) = pre @ ?chk T @ post"
    using concat_map_split [OF T_in] by blast
  have chk: "?chk T = Call (Call_ComputePublicKey full (ComputePublicKey E full)) # ?out"
    using T_hit by (simp add: check_events_eq full)
  have no_fail: "Printf (UnableToReconstruct i a p) \<notin> set (?d # concat (map ?chk (transforms k)))"
    for i a p
    by (auto dest: Printf_check_events)
  have "T \<in> set (filter (hit E addrType compressed addr partial) (transforms k))"
    using T_in T_hit by simp
  then have pos: "1 \<le> length (filter (hit E addrType compressed addr partial) (transforms k))"
    using length_pos_if_in_set [of T "filter (hit E addrType compressed addr partial) (transforms k)"]
    by linarith
  have count: "emissions (?d # concat (map ?chk (transforms k))) =
      length (filter (hit E addrType compressed addr partial) (transforms k))"
    by (simp add: emissions_concat_check_events)
  have some: "1 \<le> emissions (?d # concat (map ?chk (transforms k)))"
    unfolding count by (rule pos)
  have "written f ?out = rec_text"
    unfolding f_def rec_text_def by (rule written_outputAdd)
  then have wr: "written f (?d # concat (map ?chk (transforms k))) =
      written f pre @ rec_text @ written f post"
    by (simp add: split chk written_append)
  have addr_full: "GetAddress E addrType compressed (ComputePublicKey E full) = addr"
    using T_hit by (simp add: hit_def full)
  from run no_fail some wr addr_full show ?thesis
    unfolding f_def rec_text_def full_def append_assoc by blast
qed

text \<open>
  The hypotheses hold on a run: the known key is 1, the partial key 5, the transform
  the second one (\<open>1 \<cdot> \<lambda> mod n = \<lambda>\<close>), and the target the address of \<open>\<lambda> + 5\<close>. The
  output file receives the record of that address.
\<close>

theorem reconstruction_complete_witness:
  "let S = stub_engine [(''K1'', 1, True), (''K5'', 5, True)]
             [(0x5363ad4cc05c30e0a5261c028812645a122e22ea20816678df02967c1b23bd77, ''L5'')]
             [(''in.txt'', ''PubAddress: 1cL5\<newline>PartialPriv: K5\<newline>'')] []
   in DecodePrivateKey S (c_str ''K1'') = (1, True) \<and> (0 :: int) \<le> 1 \<and>
      parseFile S ''in.txt'' [] ([] @ [Call (Call_DecodePrivateKey (c_str ''K1'') (1, True))]) =
        (Inr [''PubAddress: '' @ ''1cL5'', ''PartialPriv: '' @ ''K5''],
         [Call (Call_DecodePrivateKey ''K1'' (1, True)), Fopen ''in.txt'' ''rb'' True,
          Fclose (FileStream ''in.txt'')]) \<and>
      addrType_of (first_char ''1cL5'') = Some P2PKH \<and>
      DecodePrivateKey S (c_str ''K5'') = (5, True) \<and>
      ''1cL5'' = GetAddress S P2PKH True
                   (ComputePublicKey S ((5 + 1 * lambda mod secp_order) mod secp_order)) \<and>
      (\<exists>evs pre post.
         reconstructAdd S ''in.txt'' ''out.txt'' ''K1'' [] =
           (Returned,
            [Call (Call_DecodePrivateKey ''K1'' (1, True)), Fopen ''in.txt'' ''rb'' True,
             Fclose (FileStream ''in.txt'')] @ evs) \<and>
         (\<forall>i a p. Printf (UnableToReconstruct i a p) \<notin> set evs) \<and>
         1 \<le> emissions evs \<and>
         written (FileStream ''out.txt'') evs =
           pre @ ''\<newline>Pub Addr: 1cL5\<newline>Priv (WIF): p2pkh:KL5\<newline>Priv (HEX): 0xL5\<newline>'' @ post)"
proof -
  let ?S = "stub_engine [(''K1'', 1, True), (''K5'', 5, True)]
             [(0x5363ad4cc05c30e0a5261c028812645a122e22ea20816678df02967c1b23bd77, ''L5'')]
             [(''in.txt'', ''PubAddress: 1cL5\<newline>PartialPriv: K5\<newline>'')] []"
  let ?w1 = "[Call (Call_DecodePrivateKey ''K1'' (1, True)), Fopen ''in.txt'' ''rb'' True,
          Fclose (FileStream ''in.txt'')] :: int trace"
  have h1: "DecodePrivateKey ?S (c_str ''K1'') = (1, True)"
    by (simp add: stub_engine_def c_str_def)
  have h2: "(0 :: int) \<le> 1"
    by simp
  have h3: "parseFile ?S ''in.txt'' []
      ([] @ [Call (Call_DecodePrivateKey (c_str ''K1'') (1, True))]) =
      (Inr [''PubAddress: '' @ ''1cL5'', ''PartialPriv: '' @ ''K5''], ?w1)"
    by (simp add: parseFile_def parse_step_def rstrip_def isspace_def c_str_def stub_engine_def)
  have h4: "addrType_of (first_char ''1cL5'') = Some P2PKH"
    by (simp add: addrType_of_def first_char_def)
  have h5: "DecodePrivateKey ?S (c_str ''K5'') = (5, True)"
    by (simp add: stub_engine_def c_str_def)
  have h6: "1 * lambda mod secp_order = 1 \<or>
      1 * lambda mod secp_order = 1 * lambda mod secp_order \<or>
      1 * lambda mod secp_order = 1 * lambda2 mod secp_order \<or>
      1 * lambda mod secp_order = secp_order - 1 \<or>
      1 * lambda mod secp_order = secp_order - 1 * lambda mod secp_order \<or>
      1 * lambda mod secp_order = secp_order - 1 * lambda2 mod secp_order"
    by simp
  have h7: "''1cL5'' = GetAddress ?S P2PKH True
      (ComputePublicKey ?S ((5 + 1 * lambda mod secp_order) mod secp_order))"
    by (simp add: stub_engine_def lambda_def secp_order_def)
  have sink: "(if ''out.txt'' \<noteq> [] \<and> fopen_append_ok ?S (c_str ''out.txt'')
      then FileStream (c_str ''out.txt'') else Stdout) = FileStream ''out.txt''"
    by (simp add: stub_engine_def c_str_def)
  have key: "c_str (GetPrivAddress ?S True ((5 + 1 * lambda mod secp_order) mod secp_order)) = ''KL5''"
    "c_str (GetBase16 ?S ((5 + 1 * lambda mod secp_order) mod secp_order)) = ''L5''"
    by (simp_all add: stub_engine_def c_str_def lambda_def secp_order_def)
  from reconstruction_complete [where E = ?S and outputFile = "''out.txt''" and w = "[]",
      OF h1 h2 h3 h4 h5 h6 h7]
  obtain evs pre post where
    "reconstructAdd ?S ''in.txt'' ''out.txt'' ''K1'' [] = (Returned, ?w1 @ evs)"
    "\<forall>i a p. Printf (UnableToReconstruct i a p) \<notin> set evs"
    "1 \<le> emissions evs"
    "written (FileStream ''out.txt'') evs =
       pre @ ''\<newline>Pub Addr: 1cL5\<newline>Priv (WIF): p2pkh:KL5\<newline>Priv (HEX): 0xL5\<newline>'' @ post"
    unfolding sink key by (auto simp: c_str_def)
  then have "\<exists>evs pre post.
         reconstructAdd ?S ''in.txt'' ''out.txt'' ''K1'' [] = (Returned, ?w1 @ evs) \<and>
         (\<forall>i a p. Printf (UnableToReconstruct i a p) \<notin> set evs) \<and>
         1 \<le> emissions evs \<and>
         written (FileStream ''out.txt'') evs =
           pre @ ''\<newline>Pub Addr: 1cL5\<newline>Priv (WIF): p2pkh:KL5\<newline>Priv (HEX): 0xL5\<newline>'' @ post"
    by blast
  with h1 h2 h3 h4 h5 h7 show ?thesis
    unfolding Let_def by (intro conjI)
qed

text \<open>
  The claim as stated fails. The known key is compressed, the partial key of the record
  is not, and the target is the address, in the record's own (uncompressed) mode, of
  \<open>(5 + 1) mod n\<close>, the first candidate. The record is skipped with the warning on the
  compression mode: no candidate is tried and nothing is written.
\<close>

theorem mode_mismatch_counterexample:
  "let S = stub_engine [(''K1'', 1, True), (''5five'', 5, False)] [(6, ''six'')]
             [(''in.txt'', ''PubAddress: 1usix\<newline>PartialPriv: 5five\<newline>'')] []
   in DecodePrivateKey S (c_str ''K1'') = (1, True) \<and>
      DecodePrivateKey S (c_str ''5five'') = (5, False) \<and>
      GetAddress S P2PKH False (ComputePublicKey S ((5 + 1) mod secp_order)) = ''1usix'' \<and>
      reconstructAdd S ''in.txt'' '''' ''K1'' [] =
        (Returned,
         [Call (Call_DecodePrivateKey ''K1'' (1, True)),
          Fopen ''in.txt'' ''rb'' True, Fclose (FileStream ''in.txt''),
          Call (Call_DecodePrivateKey ''5five'' (5, False)),
          Printf (WrongCompressionMode 0)]) \<and>
      emissions (snd (reconstructAdd S ''in.txt'' '''' ''K1'' [])) = 0"
  by (simp add: run_defs)

text \<open>
  C6. The loop is at record \<open>r\<close>, whose first line is "PubAddress: " followed by an
  address that does not start with \<open>1\<close>, \<open>3\<close>, \<open>b\<close> or \<open>B\<close>. The run goes on exactly as
  the loop entered at the next record does, from a trace that has gained the two
  lines of the diagnostic and nothing else: no candidate is tried, the second line of
  the record is not read, and the run does not end there.
\<close>

theorem unsupported_prefix_skipped:
  "2 * r < length lines \<Longrightarrow> lines ! (2 * r) = ''PubAddress: '' @ addr \<Longrightarrow>
   first_char addr \<notin> {CHR ''1'', CHR ''3'', CHR ''b'', CHR ''B''} \<Longrightarrow>
   reconstruct_loop E outputFile privKey compressed lines (2 * r) w =
   reconstruct_loop E outputFile privKey compressed lines (2 * r + 2)
     (w @ [Printf (InvalidLine (2 * r)), Printf (AddressFormatNotSupported (c_str addr))])"
  by (subst reconstruct_loop.simps) (simp add: loop_body_def addrType_of_def)

theorem unsupported_prefix_skipped_witness:
  "2 * 0 < length [''PubAddress: 2abc'', ''PartialPriv: K5''] \<and>
   [''PubAddress: 2abc'', ''PartialPriv: K5''] ! (2 * 0) = ''PubAddress: '' @ ''2abc'' \<and>
   first_char ''2abc'' \<notin> {CHR ''1'', CHR ''3'', CHR ''b'', CHR ''B''} \<and>
   reconstruct_loop (stub_engine [] [] [] []) '''' 5 True
     [''PubAddress: 2abc'', ''PartialPriv: K5''] (2 * 0) [] =
   (Returned, [Printf (InvalidLine 0), Printf (AddressFormatNotSupported ''2abc'')])"
  using unsupported_prefix_skipped [where r = 0
      and lines = "[''PubAddress: 2abc'', ''PartialPriv: K5'']" and addr = "''2abc''"
      and E = "stub_engine [] [] [] []" and outputFile = "''''" and privKey = 5
      and compressed = True and w = "[]"]
  by (simp add: first_char_def c_str_def reconstruct_loop_done)

text \<open>
  C7, as the code has it. The loop is at record \<open>r\<close>. If line \<open>2r\<close> does not begin with
  "PubAddress: ", the run prints the diagnostic that names line \<open>2r\<close> and exits with
  status \<open>- 1\<close>. If line \<open>2r\<close> begins with "PubAddress: " and an address that starts with
  \<open>1\<close>, \<open>3\<close>, \<open>b\<close> or \<open>B\<close>, and line \<open>2r + 1\<close> does not begin with "PartialPriv: ", the run
  prints the diagnostic, which names line \<open>2r\<close> too, and exits with status \<open>- 1\<close>. In
  both cases nothing else is added to the trace: no later record is processed.
\<close>

theorem malformed_prefix_fatal:
  "(2 * r < length lines \<and> take 12 (lines ! (2 * r)) \<noteq> ''PubAddress: '' \<longrightarrow>
      reconstruct_loop E outputFile privKey compressed lines (2 * r) w =
        (Exited (- 1), w @ [Printf (PubAddressExpected (2 * r))])) \<and>
   (2 * r + 1 < length lines \<and> take 12 (lines ! (2 * r)) = ''PubAddress: '' \<and>
    first_char (drop 12 (lines ! (2 * r))) \<in> {CHR ''1'', CHR ''3'', CHR ''b'', CHR ''B''} \<and>
    take 13 (lines ! (2 * r + 1)) \<noteq> ''PartialPriv: '' \<longrightarrow>
      reconstruct_loop E outputFile privKey compressed lines (2 * r) w =
        (Exited (- 1), w @ [Printf (PartialPrivExpected (2 * r))]))"
  by (auto simp add: reconstruct_loop_step loop_body_def addrType_of_def)

theorem malformed_prefix_fatal_witness:
  "(2 * 1 < length [''PubAddress: 2abc'', ''x'', ''oops''] \<and>
    take 12 ([''PubAddress: 2abc'', ''x'', ''oops''] ! (2 * 1)) \<noteq> ''PubAddress: '' \<and>
    reconstruct_loop (stub_engine [] [] [] []) '''' 5 True
      [''PubAddress: 2abc'', ''x'', ''oops''] (2 * 1) [] =
    (Exited (- 1), [Printf (PubAddressExpected 2)])) \<and>
   (2 * 0 + 1 < length [''PubAddress: 1abc'', ''Partial: K5''] \<and>
    take 12 ([''PubAddress: 1abc'', ''Partial: K5''] ! (2 * 0)) = ''PubAddress: '' \<and>
    first_char (drop 12 ([''PubAddress: 1abc'', ''Partial: K5''] ! (2 * 0)))
      \<in> {CHR ''1'', CHR ''3'', CHR ''b'', CHR ''B''} \<and>
    take 13 ([''PubAddress: 1abc'', ''Partial: K5''] ! (2 * 0 + 1)) \<noteq> ''PartialPriv: '' \<and>
    reconstruct_loop (stub_engine [] [] [] []) '''' 5 True
      [''PubAddress: 1abc'', ''Partial: K5''] (2 * 0) [] =
    (Exited (- 1), [Printf (PartialPrivExpected 0)]))"
  using malformed_prefix_fatal [where r = 1
      and lines = "[''PubAddress: 2abc'', ''x'', ''oops'']"
      and E = "stub_engine [] [] [] []" and outputFile = "''''" and privKey = 5
      and compressed = True and w = "[]"]
    malformed_prefix_fatal [where r = 0
      and lines = "[''PubAddress: 1abc'', ''Partial: K5'']"
      and E = "stub_engine [] [] [] []" and outputFile = "''''" and privKey = 5
      and compressed = True and w = "[]"]
  by (simp add: first_char_def)

text \<open>
  The claim as stated fails. The second line of the first record does not begin with
  "PartialPriv: ", but the address of that record starts with \<open>2\<close>: the record is
  skipped before its second line is read, the run returns, and the record after it is
  processed and written.
\<close>

theorem partial_prefix_counterexample:
  "take 13 ''rubbish'' \<noteq> ''PartialPriv: '' \<and>
   fst (reconstructAdd
     (stub_engine [(''K1'', 1, True), (''K5'', 5, True)] [(6, ''six'')]
        [(''in.txt'',
          ''PubAddress: 2abc\<newline>rubbish\<newline>PubAddress: 1csix\<newline>PartialPriv: K5\<newline>'')] [])
     ''in.txt'' '''' ''K1'' []) = Returned \<and>
   emissions (snd (reconstructAdd
     (stub_engine [(''K1'', 1, True), (''K5'', 5, True)] [(6, ''six'')]
        [(''in.txt'',
          ''PubAddress: 2abc\<newline>rubbish\<newline>PubAddress: 1csix\<newline>PartialPriv: K5\<newline>'')] [])
     ''in.txt'' '''' ''K1'' [])) = 1"
  by (simp add: run_defs)

text \<open>
  The first half of C3 holds. When the text of the known key decodes to a negative
  scalar, \<^verbatim>\<open>reconstructAdd\<close> exits with status \<open>- 1\<close> right after the decoding: the file
  of records is not opened and no record is processed.
\<close>

lemma invalid_known_key_aborts:
  "fst (DecodePrivateKey E (c_str privAddr)) < 0 \<Longrightarrow>
   reconstructAdd E fileName outputFile privAddr w =
     (Exited (- 1),
      w @ [Call (Call_DecodePrivateKey (c_str privAddr) (DecodePrivateKey E (c_str privAddr)))])"
  by (auto simp add: reconstructAdd_def Let_def split: prod.splits)

lemma invalid_known_key_aborts_example:
  "fst (DecodePrivateKey (stub_engine [(''K5'', 5, True)] [] [] []) (c_str ''garbage'')) < 0 \<and>
   reconstructAdd (stub_engine [(''K5'', 5, True)] [] [] []) ''in.txt'' '''' ''garbage'' [] =
     (Exited (- 1), [Call (Call_DecodePrivateKey ''garbage'' (- 1, False))])"
  using invalid_known_key_aborts [where E = "stub_engine [(''K5'', 5, True)] [] [] []"
      and privAddr = "''garbage''" and fileName = "''in.txt''" and outputFile = "''''"
      and w = "[]"]
  by (simp add: stub_engine_def c_str_def)

text \<open>
  C3, where the code departs from it. The partial key text of the only record decodes
  to the sentinel \<open>- 1\<close>. The test after that decoding reads the known key, which is not
  negative, so the sentinel goes unnoticed and the diagnostic for an invalid partial
  key is never printed; what happens to the record is left to the compression flag,
  which the decoder does not set for a text it rejects. When the flag comes out equal
  to the known key's, the record is not skipped and nothing is printed: six candidates
  are tried with \<open>- 1\<close> as the partial key, and the first, \<open>5 - 1 = 4\<close>, is written as the
  key of the target address. When it comes out different, the record is skipped under
  the warning on the compression mode.
\<close>

theorem invalid_partial_key_undetected:
  "(let S = stub_engine [(''K5'', 5, True), (''Zbad'', - 1, True)] [(4, ''four'')]
              [(''in.txt'', ''PubAddress: 1cfour\<newline>PartialPriv: Zbad\<newline>'')] [];
        run = reconstructAdd S ''in.txt'' '''' ''K5'' []
    in DecodePrivateKey S (c_str ''Zbad'') = (- 1, True) \<and>
       fst run = Returned \<and>
       printed (snd run) = [] \<and>
       tried (snd run) =
         [4, (5 * lambda mod secp_order - 1) mod secp_order,
          (5 * lambda2 mod secp_order - 1) mod secp_order,
          secp_order - 6, (secp_order - 5 * lambda mod secp_order - 1) mod secp_order,
          (secp_order - 5 * lambda2 mod secp_order - 1) mod secp_order] \<and>
       written Stdout (snd run) =
         ''\<newline>Pub Addr: 1cfour\<newline>Priv (WIF): p2pkh:Kfour\<newline>Priv (HEX): 0xfour\<newline>'') \<and>
   (let S = stub_engine [(''K5'', 5, True), (''Zbad'', - 1, False)] [(4, ''four'')]
              [(''in.txt'', ''PubAddress: 1cfour\<newline>PartialPriv: Zbad\<newline>'')] [];
        run = reconstructAdd S ''in.txt'' '''' ''K5'' []
    in DecodePrivateKey S (c_str ''Zbad'') = (- 1, False) \<and>
       fst run = Returned \<and>
       printed (snd run) = [WrongCompressionMode 0] \<and>
       tried (snd run) = [] \<and>
       written Stdout (snd run) = [])"
  by (simp add: run_defs)

subsection \<open>Reading the lines\<close>

lemma loop_body_OutOfBounds:
  "loop_body E outputFile privKey compressed lines i w = Break (OutOfBounds j) w' \<Longrightarrow>
   j = i + 1 \<and> \<not> i + 1 < length lines \<and> w' = w \<and>
   take 12 (lines ! i) = ''PubAddress: '' \<and> addrType_of (first_char (drop 12 (lines ! i))) \<noteq> None"
  by (auto simp: loop_body_def Let_def split: if_splits option.splits prod.splits)

text \<open>
  A run that ends in a read past the end reads the position right after the last
  line, and the number of lines from where the loop was entered is odd.
\<close>

lemma reconstruct_loop_OutOfBounds:
  "fst (reconstruct_loop E outputFile privKey compressed lines i w) = OutOfBounds j \<Longrightarrow>
   j = length lines \<and> odd (length lines - i)"
proof (induction E outputFile privKey compressed lines i w
    rule: reconstruct_loop.induct)
  case (1 E outputFile privKey compressed lines i w)
  show ?case
  proof (cases "i < length lines")
    case False
    with "1.prems" show ?thesis
      by (simp add: reconstruct_loop_done)
  next
    case True
    show ?thesis
    proof (cases "loop_body E outputFile privKey compressed lines i w")
      case (Continue w')
      with True "1.prems"
      have "fst (reconstruct_loop E outputFile privKey compressed lines (i + 2) w') = OutOfBounds j"
        by (subst (asm) reconstruct_loop.simps) simp
      with "1.IH" [OF True Continue] have "j = length lines" "odd (length lines - (i + 2))"
        by simp_all
      then show ?thesis
        by (cases "i + 2 \<le> length lines") (auto simp: even_diff_nat)
    next
      case (Break oc w')
      with True "1.prems" have "oc = OutOfBounds j"
        by (subst (asm) reconstruct_loop.simps) simp
      with Break have "j = i + 1" "\<not> i + 1 < length lines"
        by (auto dest: loop_body_OutOfBounds)
      with True have "j = length lines" "length lines - i = 1"
        by simp_all
      then show ?thesis by simp
    qed
  qed
qed

text \<open>
  C10, as the code has it. With an even number of lines the loop, entered at any
  record, never reads a line that is not there. A read past the end can only happen
  with an odd number of lines, and then at the position right after the last line.
  With an odd number of lines the loop entered at the last line reads past the end
  exactly when that line begins with "PubAddress: " and an address that starts with
  \<open>1\<close>, \<open>3\<close>, \<open>b\<close> or \<open>B\<close>; otherwise the run exits or skips the line before the read.
\<close>

theorem line_access_bounds:
  "(even (length lines) \<longrightarrow>
      fst (reconstruct_loop E outputFile privKey compressed lines (2 * r) w) \<noteq> OutOfBounds j) \<and>
   (fst (reconstruct_loop E outputFile privKey compressed lines (2 * r) w) = OutOfBounds j \<longrightarrow>
      odd (length lines) \<and> j = length lines) \<and>
   (odd (length lines) \<longrightarrow>
      (fst (reconstruct_loop E outputFile privKey compressed lines (length lines - 1) w) =
         OutOfBounds (length lines)) =
      (take 12 (last lines) = ''PubAddress: '' \<and>
       first_char (drop 12 (last lines)) \<in> {CHR ''1'', CHR ''3'', CHR ''b'', CHR ''B''}))"
proof -
  have only_past_end: "odd (length lines) \<and> j = length lines"
    if oob: "fst (reconstruct_loop E outputFile privKey compressed lines (2 * r) w) = OutOfBounds j"
    for j
  proof -
    from reconstruct_loop_OutOfBounds [OF oob]
    have j: "j = length lines" and par: "odd (length lines - 2 * r)"
      by simp_all
    from par have "2 * r < length lines"
      by (cases "2 * r < length lines") simp_all
    with par have "odd (length lines)"
      by (simp add: even_diff_nat)
    with j show ?thesis
      by simp
  qed
  have final: "(fst (reconstruct_loop E outputFile privKey compressed lines (length lines - 1) w) =
         OutOfBounds (length lines)) =
      (take 12 (last lines) = ''PubAddress: '' \<and>
       first_char (drop 12 (last lines)) \<in> {CHR ''1'', CHR ''3'', CHR ''b'', CHR ''B''})"
    if od: "odd (length lines)"
  proof -
    from od have ne: "lines \<noteq> []"
      by auto
    let ?i = "length lines - 1"
    from ne have i: "?i < length lines" "\<not> ?i + 1 < length lines" "length lines \<le> ?i + 2"
      "?i + 1 = length lines"
      by simp_all
    from ne have lst: "lines ! ?i = last lines"
      by (simp add: last_conv_nth)
    show ?thesis
    proof (cases "take 12 (last lines) = ''PubAddress: ''")
      case False
      with i lst show ?thesis
        by (simp add: reconstruct_loop_step loop_body_def)
    next
      case True
      show ?thesis
      proof (cases "addrType_of (first_char (drop 12 (last lines)))")
        case None
        then have "first_char (drop 12 (last lines)) \<notin> {CHR ''1'', CHR ''3'', CHR ''b'', CHR ''B''}"
          by (rule addrType_of_NoneD)
        with None True i lst show ?thesis
          by (simp add: reconstruct_loop_step loop_body_def reconstruct_loop_done)
      next
        case (Some t)
        then have "first_char (drop 12 (last lines)) \<in> {CHR ''1'', CHR ''3'', CHR ''b'', CHR ''B''}"
          by (rule addrType_of_SomeD)
        with Some True i lst show ?thesis
          by (simp add: reconstruct_loop_step loop_body_def)
      qed
    qed
  qed
  from only_past_end final show ?thesis
    by blast
qed

theorem line_access_bounds_witness:
  "(even (length [''PubAddress: 1cfive'', ''PartialPriv: K5'']) \<and>
    fst (reconstruct_loop (stub_engine [] [] [] []) '''' 0 True
          [''PubAddress: 1cfive'', ''PartialPriv: K5''] (2 * 0) []) \<noteq> OutOfBounds 2) \<and>
   (fst (reconstruct_loop (stub_engine [] [] [] []) '''' 0 True
          [''PubAddress: 1cfive''] (2 * 0) []) = OutOfBounds 1 \<and>
    odd (length [''PubAddress: 1cfive'']) \<and> 1 = length [''PubAddress: 1cfive''] \<and>
    take 12 (last [''PubAddress: 1cfive'']) = ''PubAddress: '' \<and>
    first_char (drop 12 (last [''PubAddress: 1cfive'']))
      \<in> {CHR ''1'', CHR ''3'', CHR ''b'', CHR ''B''})"
  using line_access_bounds [where lines = "[''PubAddress: 1cfive'', ''PartialPriv: K5'']"
      and r = 0 and j = 2 and E = "stub_engine [] [] [] []" and outputFile = "''''"
      and privKey = 0 and compressed = True and w = "[]"]
    line_access_bounds [where lines = "[''PubAddress: 1cfive'']"
      and r = 0 and j = 1 and E = "stub_engine [] [] [] []" and outputFile = "''''"
      and privKey = 0 and compressed = True and w = "[]"]
  by (simp add: first_char_def)

text \<open>
  The claim as stated fails. The file holds one line, an odd number, and the address
  on it starts with \<open>2\<close>: the line is skipped with the diagnostic and the run returns
  without a read past the end.
\<close>

theorem odd_line_count_counterexample:
  "odd (length [''PubAddress: 2abc'']) \<and>
   reconstructAdd
     (stub_engine [(''K5'', 5, True)] [] [(''in.txt'', ''PubAddress: 2abc\<newline>'')] [])
     ''in.txt'' '''' ''K5'' [] =
   (Returned,
    [Call (Call_DecodePrivateKey ''K5'' (5, True)),
     Fopen ''in.txt'' ''rb'' True, Fclose (FileStream ''in.txt''),
     Printf (InvalidLine 0), Printf (AddressFormatNotSupported ''2abc'')])"
  by (simp add: run_defs)

end
